theory Spec2Isabelle
  imports Main
begin

section \<open>Python values handled by the field\<close>

text \<open>
  The field converts between Python's \<open>datetime.timedelta\<close> and an integer column.
  A \<open>timedelta\<close> holds three integer attributes. Python keeps them normalised
  (\<open>0 \<le> seconds < 86400\<close>, \<open>0 \<le> microseconds < 1000000\<close>) and bounds the days by
  \<open>999999999\<close> in magnitude; a negative span has negative \<open>days\<close> and non-negative
  \<open>seconds\<close> and \<open>microseconds\<close>.
\<close>

record timedelta =
  days :: int
  seconds :: int
  microseconds :: int

text \<open>
  The exceptions that the modelled code can raise. \<open>ValidationError\<close> carries the key
  of \<open>default_error_messages\<close> whose message it was built from.
\<close>

datatype message_key = invalid | unknown_type

datatype error =
    OverflowError
  | TypeError
  | AttributeError
  | NotImplementedError
  | ValueError
  | DjangoUnicodeDecodeError
  | ValidationError message_key

text \<open>
  What \<open>except ValueError\<close> catches: \<open>ValueError\<close> and its subclasses, of which
  \<open>DjangoUnicodeDecodeError\<close> (a \<open>UnicodeDecodeError\<close>) is one.
\<close>

fun is_ValueError :: "error \<Rightarrow> bool" where
  "is_ValueError ValueError = True"
| "is_ValueError DjangoUnicodeDecodeError = True"
| "is_ValueError OverflowError = False"
| "is_ValueError TypeError = False"
| "is_ValueError AttributeError = False"
| "is_ValueError NotImplementedError = False"
| "is_ValueError (ValidationError k) = False"

abbreviation InvalidFormat :: error where
  "InvalidFormat \<equiv> ValidationError invalid"

abbreviation UnsupportedType :: error where
  "UnsupportedType \<equiv> ValidationError unknown_type"

text \<open>
  The kinds of value that reach \<open>get_db_prep_value\<close> and \<open>to_python\<close>. Of a value
  that is neither \<open>None\<close>, an integer nor a timedelta, \<open>to_python\<close> reads only
  what \<open>smart_text\<close> makes of it, so each such kind carries the outcome of its text
  conversion:
  \<^item> \<open>PyStr\<close>, a text string, which \<open>smart_text\<close> returns as it is;
  \<^item> \<open>PyFloat\<close>, a float, with its text rendering (\<open>3.14\<close> for the float 3.14);
    the conversion of a float does not fail;
  \<^item> \<open>PyBytes\<close>, a byte string, with the text it decodes to as UTF-8, or \<open>None\<close>
    when it is not valid UTF-8 and \<open>smart_text\<close> raises
    \<open>DjangoUnicodeDecodeError\<close>;
  \<^item> \<open>PyObject\<close>, any other object (one without \<open>__abs__\<close>), with what
    \<open>str\<close> does on it: the text returned (\<open>Inr\<close>) or the exception raised
    (\<open>Inl\<close>), which \<open>smart_text\<close> lets through;
  \<^item> \<open>PyLazy\<close>, a lazy translation proxy (\<open>django.utils.functional.Promise\<close>),
    the one kind that \<open>smart_text\<close> hands back unconverted.
\<close>

datatype pyval =
    PyNone
  | PyInt int
  | PyTimedelta timedelta
  | PyStr string
  | PyFloat string
  | PyBytes "string option"
  | PyObject "error + string"
  | PyLazy

subsection \<open>The timedelta operations used by the field\<close>

text \<open>
  The invariant of a constructed \<open>timedelta\<close>, and its total in microseconds (the
  quantity that orders and compares durations).
\<close>

definition valid_timedelta :: "timedelta \<Rightarrow> bool" where
  "valid_timedelta td \<longleftrightarrow>
     \<bar>days td\<bar> \<le> 999999999 \<and>
     0 \<le> seconds td \<and> seconds td < 86400 \<and>
     0 \<le> microseconds td \<and> microseconds td < 1000000"

definition total_microseconds :: "timedelta \<Rightarrow> int" where
  "total_microseconds td =
     (days td * 86400 + seconds td) * 1000000 + microseconds td"

text \<open>
  \<open>timedelta(days, seconds, microseconds)\<close> on integer arguments: microseconds carry
  into seconds and seconds into days by floor division (Python's \<open>divmod\<close>), and a day
  count beyond \<open>999999999\<close> in magnitude raises \<open>OverflowError\<close>.
\<close>

definition timedelta_new :: "int \<Rightarrow> int \<Rightarrow> int \<Rightarrow> error + timedelta" where
  "timedelta_new d s us =
     (let s1 = s + us div 1000000;
          d1 = d + s1 div 86400
      in if \<bar>d1\<bar> > 999999999 then Inl OverflowError
         else Inr \<lparr>days = d1, seconds = s1 mod 86400, microseconds = us mod 1000000\<rparr>)"

text \<open>
  \<open>timedelta(**{name: n})\<close>: the call with a single keyword argument. The constructor
  knows seven keywords; any other name raises \<open>TypeError\<close>.
\<close>

definition timedelta_kw :: "string \<Rightarrow> int \<Rightarrow> error + timedelta" where
  "timedelta_kw name n =
     (if name = ''days'' then timedelta_new n 0 0
      else if name = ''seconds'' then timedelta_new 0 n 0
      else if name = ''microseconds'' then timedelta_new 0 0 n
      else if name = ''milliseconds'' then timedelta_new 0 0 (n * 1000)
      else if name = ''minutes'' then timedelta_new 0 (n * 60) 0
      else if name = ''hours'' then timedelta_new 0 (n * 3600) 0
      else if name = ''weeks'' then timedelta_new (n * 7) 0 0
      else Inl TypeError)"

text \<open>
  \<open>abs(td)\<close>: \<open>-td\<close> when the days are negative, \<open>td\<close> itself otherwise, where
  \<open>-td\<close> is \<open>timedelta(-days, -seconds, -microseconds)\<close>.
\<close>

definition timedelta_abs :: "timedelta \<Rightarrow> error + timedelta" where
  "timedelta_abs td =
     (if days td < 0
      then timedelta_new (- days td) (- seconds td) (- microseconds td)
      else Inr td)"

section \<open>The field\<close>

record DurationField =
  precision :: string

text \<open>
  \<open>DurationField.__init__\<close>. The guard builds its message from \<open>self.precision\<close>,
  which is not assigned yet at that point, so the attribute lookup raises before the
  \<open>NotImplementedError\<close> is constructed.
\<close>

definition init :: "string \<Rightarrow> error + DurationField" where
  "init p =
     (if p \<notin> {''microseconds'', ''seconds'', ''days''} then Inl AttributeError
      else Inr \<lparr>precision = p\<rparr>)"

subsection \<open>Encoding: \<open>get_db_prep_value\<close>\<close>

text \<open>The chain of comparisons on \<open>self.precision\<close> applied to a timedelta.\<close>

definition encode_units :: "string \<Rightarrow> timedelta \<Rightarrow> error + int" where
  "encode_units p v =
     (if p = ''microseconds''
      then Inr (days v * 24 * 3600 * 1000000 + seconds v * 1000000 + microseconds v)
      else if p = ''seconds'' then Inr (days v * 24 * 3600 + seconds v)
      else if p = ''days'' then Inr (days v)
      else Inl NotImplementedError)"

text \<open>
  \<open>get_db_prep_value\<close>: \<open>None\<close> is returned as it is; an integer is first made a
  timedelta of that many units; then \<open>abs\<close> and the formula of the precision. \<open>abs\<close>
  of a string, of bytes or of an object without \<open>__abs__\<close> raises \<open>TypeError\<close>;
  \<open>abs\<close> of a float succeeds and the attribute \<open>days\<close> is then missing.
\<close>

fun get_db_prep_value :: "DurationField \<Rightarrow> pyval \<Rightarrow> error + int option" where
  "get_db_prep_value f PyNone = Inr None"
| "get_db_prep_value f (PyInt n) =
     (case timedelta_kw (precision f) n of
        Inl e \<Rightarrow> Inl e
      | Inr td \<Rightarrow>
          (case timedelta_abs td of
             Inl e \<Rightarrow> Inl e
           | Inr v \<Rightarrow> map_sum id Some (encode_units (precision f) v)))"
| "get_db_prep_value f (PyTimedelta td) =
     (case timedelta_abs td of
        Inl e \<Rightarrow> Inl e
      | Inr v \<Rightarrow> map_sum id Some (encode_units (precision f) v))"
| "get_db_prep_value f (PyFloat s) =
     (if precision f \<in> {''microseconds'', ''seconds'', ''days''} then Inl AttributeError
      else Inl NotImplementedError)"
| "get_db_prep_value f (PyStr s) = Inl TypeError"
| "get_db_prep_value f (PyBytes b) = Inl TypeError"
| "get_db_prep_value f (PyObject r) = Inl TypeError"
| "get_db_prep_value f PyLazy = Inl TypeError"

subsection \<open>Decoding: \<open>to_python\<close>\<close>

text \<open>
  The string parser \<open>durationfield.utils.timestring.str_to_timedelta\<close> is called with
  the text and the precision. \<open>to_python\<close> takes it as a parameter.
\<close>

type_synonym parser = "string \<Rightarrow> string \<Rightarrow> error + timedelta"

text \<open>
  The last part of \<open>to_python\<close>, on the text that \<open>smart_text\<close> returned: a
  \<open>ValueError\<close> of the parser (or an exception of a subclass of it) becomes the
  \<open>invalid\<close> validation error, any other exception propagates.
\<close>

definition parse_text :: "parser \<Rightarrow> DurationField \<Rightarrow> string \<Rightarrow> error + timedelta option" where
  "parse_text str_to_td f str_val =
     (case str_to_td str_val (precision f) of
        Inl e \<Rightarrow> if is_ValueError e then Inl (ValidationError invalid) else Inl e
      | Inr td \<Rightarrow> Inr (Some td))"

text \<open>
  \<open>to_python\<close>: \<open>None\<close> and a timedelta are returned as they are, an integer becomes
  a timedelta of that many units. Everything else goes through \<open>smart_text\<close>, which
  is called outside the \<open>try\<close>: an exception of the conversion propagates as it is;
  a string that it returns is parsed; the lazy proxy, which it returns unconverted, is
  not a string and reaches the \<open>unknown_type\<close> error.
\<close>

fun to_python :: "parser \<Rightarrow> DurationField \<Rightarrow> pyval \<Rightarrow> error + timedelta option" where
  "to_python str_to_td f PyNone = Inr None"
| "to_python str_to_td f (PyTimedelta td) = Inr (Some td)"
| "to_python str_to_td f (PyInt n) = map_sum id Some (timedelta_kw (precision f) n)"
| "to_python str_to_td f (PyStr s) = parse_text str_to_td f s"
| "to_python str_to_td f (PyFloat s) = parse_text str_to_td f s"
| "to_python str_to_td f (PyBytes b) =
     (case b of
        None \<Rightarrow> Inl DjangoUnicodeDecodeError
      | Some s \<Rightarrow> parse_text str_to_td f s)"
| "to_python str_to_td f (PyObject r) =
     (case r of
        Inl e \<Rightarrow> Inl e
      | Inr s \<Rightarrow> parse_text str_to_td f s)"
| "to_python str_to_td f PyLazy = Inl (ValidationError unknown_type)"

section \<open>The duration grammar\<close>

text \<open>
  Modelled from the spec: \<open>durationfield.utils.timestring.str_to_timedelta\<close>, the
  string parser that \<open>to_python\<close> calls, is not part of the sources at hand. The
  definitions of this section follow the grammar of the specification: after trimming
  surrounding whitespace and discarding one leading \<open>-\<close>, the text is a sequence of one
  or more tokens, each an amount directly followed by a unit, optionally separated by whitespace; an amount is
  a run of digits, optionally followed by a point and a run of digits; a unit is one of
  \<open>w d h min s ms us\<close>; no unit occurs twice; every token contributes its amount in
  microseconds, truncated to a whole number; the sum is renormalised into days, seconds
  and microseconds. The specification's parse takes the text alone, so the precision
  argument of the call is not read. A rejected text is signalled by \<open>ValueError\<close>, the
  exception that \<open>to_python\<close> catches.
\<close>

definition is_space :: "char \<Rightarrow> bool" where
  "is_space c \<longleftrightarrow> c \<in> {CHR '' '', CHR 0x09, CHR 0x0A, CHR 0x0B, CHR 0x0C, CHR 0x0D}"

definition is_digit :: "char \<Rightarrow> bool" where
  "is_digit c \<longleftrightarrow> c \<in> set ''0123456789''"

definition is_letter :: "char \<Rightarrow> bool" where
  "is_letter c \<longleftrightarrow> c \<in> set ''abcdefghijklmnopqrstuvwxyzABCDEFGHIJKLMNOPQRSTUVWXYZ''"

definition digit_val :: "char \<Rightarrow> int" where
  "digit_val c = int (length (takeWhile (\<lambda>d. d \<noteq> c) ''0123456789''))"

definition digits_val :: "string \<Rightarrow> int" where
  "digits_val ds = foldl (\<lambda>a c. 10 * a + digit_val c) 0 ds"

definition unit_microseconds :: "string \<Rightarrow> int option" where
  "unit_microseconds u =
     (if u = ''w'' then Some 604800000000
      else if u = ''d'' then Some 86400000000
      else if u = ''h'' then Some 3600000000
      else if u = ''min'' then Some 60000000
      else if u = ''s'' then Some 1000000
      else if u = ''ms'' then Some 1000
      else if u = ''us'' then Some 1
      else None)"

text \<open>
  An amount at the head of the text: its digits read as one integer, the number of
  digits after the point, and the text that follows.
\<close>

definition read_amount :: "string \<Rightarrow> (int \<times> nat \<times> string) option" where
  "read_amount cs =
     (if takeWhile is_digit cs = [] then None
      else (case dropWhile is_digit cs of
              [] \<Rightarrow> Some (digits_val (takeWhile is_digit cs), 0, [])
            | c # r \<Rightarrow>
                if c = CHR ''.''
                then (if takeWhile is_digit r = [] then None
                      else Some (digits_val (takeWhile is_digit cs @ takeWhile is_digit r),
                                 length (takeWhile is_digit r), dropWhile is_digit r))
                else Some (digits_val (takeWhile is_digit cs), 0, c # r)))"

text \<open>
  The token loop: \<open>seen\<close> holds the units read so far, \<open>acc\<close> the microseconds summed
  so far.
\<close>

function parse_tokens :: "string list \<Rightarrow> int \<Rightarrow> string \<Rightarrow> error + int" where
  "parse_tokens seen acc cs =
     (case dropWhile is_space cs of
        [] \<Rightarrow> if seen = [] then Inl ValueError else Inr acc
      | c # r \<Rightarrow>
          (case read_amount (c # r) of
             None \<Rightarrow> Inl ValueError
           | Some (num, k, r1) \<Rightarrow>
               (let u = takeWhile is_letter r1
                in case unit_microseconds u of
                     None \<Rightarrow> Inl ValueError
                   | Some m \<Rightarrow>
                       if u \<in> set seen then Inl ValueError
                       else parse_tokens (u # seen) (acc + num * m div 10 ^ k)
                              (dropWhile is_letter r1))))"
  by pat_completeness auto

termination
proof (relation "measure (\<lambda>(seen, acc, cs). length cs)")
  show "wf (measure (\<lambda>(seen, acc, cs). length cs))" by simp
next
  fix seen :: "string list" and acc :: int and cs :: string
    and c r x2 num y k r1 u m
  assume d: "dropWhile is_space cs = c # r"
    and ra: "read_amount (c # r) = Some x2"
    and x2: "(num, y) = x2" and y: "(k, r1) = y"
  define w where "w = takeWhile is_digit (c # r)"
  define t where "t = dropWhile is_digit (c # r)"
  have ra': "(if w = [] then None
       else (case t of
               [] \<Rightarrow> Some (digits_val w, 0, [])
             | c' # r' \<Rightarrow>
                 if c' = CHR ''.''
                 then (if takeWhile is_digit r' = [] then None
                       else Some (digits_val (w @ takeWhile is_digit r'),
                                  length (takeWhile is_digit r'), dropWhile is_digit r'))
                 else Some (digits_val w, 0, c' # r'))) = Some (num, k, r1)"
    using ra x2 y unfolding read_amount_def w_def t_def by simp
  have w: "w \<noteq> []" using ra' by (auto split: if_splits)
  have "length r1 \<le> length t"
  proof (cases t)
    case Nil
    then show ?thesis using ra' w by simp
  next
    case (Cons c' r')
    have "length (dropWhile is_digit r') \<le> length r'" by (rule length_dropWhile_le)
    then show ?thesis using ra' w Cons by (auto split: if_splits)
  qed
  moreover have "length w + length t = length (c # r)"
    unfolding w_def t_def by (metis length_append takeWhile_dropWhile_id)
  moreover have "0 < length w" using w by simp
  moreover have "length (c # r) \<le> length cs"
    using d length_dropWhile_le[of is_space cs] by simp
  moreover have "length (dropWhile is_letter r1) \<le> length r1"
    by (rule length_dropWhile_le)
  ultimately have "length (dropWhile is_letter r1) < length cs"
    by linarith
  then show "((u # seen, acc + num * m div 10 ^ k, dropWhile is_letter r1), seen, acc, cs)
       \<in> measure (\<lambda>(seen, acc, cs). length cs)"
    by simp
qed

declare parse_tokens.simps [simp del]

definition strip :: "string \<Rightarrow> string" where
  "strip cs = rev (dropWhile is_space (rev (dropWhile is_space cs)))"

definition str_to_timedelta :: "string \<Rightarrow> string \<Rightarrow> error + timedelta" where
  "str_to_timedelta text prec =
     (let t = strip text;
          body = (case t of c # r \<Rightarrow> if c = CHR ''-'' then r else t | [] \<Rightarrow> t)
      in case parse_tokens [] 0 body of
           Inl e \<Rightarrow> Inl e
         | Inr us \<Rightarrow>
             Inr \<lparr>days = us div 86400000000,
                  seconds = us div 1000000 mod 86400,
                  microseconds = us mod 1000000\<rparr>)"

section \<open>Quantities of a precision\<close>

text \<open>
  How many units of a precision make one day, and how many microseconds make one
  unit: the reading of ``\<open>n\<close> units of \<open>p\<close>'' used in the statements below.
\<close>

definition units_per_day :: "string \<Rightarrow> int" where
  "units_per_day p =
     (if p = ''days'' then 1 else if p = ''seconds'' then 86400 else 86400000000)"

definition microseconds_per_unit :: "string \<Rightarrow> int" where
  "microseconds_per_unit p =
     (if p = ''days'' then 86400000000 else if p = ''seconds'' then 1000000 else 1)"

section \<open>Arithmetic of normalised durations\<close>

lemma divmod_unique:
  fixes q r m :: int
  assumes "0 \<le> r" "r < m"
  shows "(q * m + r) div m = q" and "(q * m + r) mod m = r"
  using assms by simp_all

lemma timedelta_new_days:
  "timedelta_new n 0 0 =
     (if \<bar>n\<bar> > 999999999 then Inl OverflowError
      else Inr \<lparr>days = n, seconds = 0, microseconds = 0\<rparr>)"
  by (simp add: timedelta_new_def)

lemma timedelta_new_seconds:
  "timedelta_new 0 n 0 =
     (if \<bar>n div 86400\<bar> > 999999999 then Inl OverflowError
      else Inr \<lparr>days = n div 86400, seconds = n mod 86400, microseconds = 0\<rparr>)"
  by (simp add: timedelta_new_def)

lemma div_86400000000:
  "(n::int) div 1000000 div 86400 = n div 86400000000"
  using zdiv_zmult2_eq[of 86400 n 1000000] by simp

lemma timedelta_new_microseconds:
  "timedelta_new 0 0 n =
     (if \<bar>n div 86400000000\<bar> > 999999999 then Inl OverflowError
      else Inr \<lparr>days = n div 86400000000, seconds = n div 1000000 mod 86400,
                microseconds = n mod 1000000\<rparr>)"
  by (simp add: timedelta_new_def div_86400000000)

lemma timedelta_kw_units:
  assumes "p \<in> {''microseconds'', ''seconds'', ''days''}"
  shows "timedelta_kw p n =
     (if \<bar>n div units_per_day p\<bar> > 999999999 then Inl OverflowError
      else Inr \<lparr>days = n div units_per_day p,
                seconds = n * microseconds_per_unit p div 1000000 mod 86400,
                microseconds = n * microseconds_per_unit p mod 1000000\<rparr>)"
proof -
  consider "p = ''microseconds''" | "p = ''seconds''" | "p = ''days''"
    using assms by auto
  then show ?thesis
  proof cases
    case 1
    then show ?thesis
      by (simp add: timedelta_kw_def units_per_day_def microseconds_per_unit_def
          timedelta_new_microseconds)
  next
    case 2
    then show ?thesis
      by (simp add: timedelta_kw_def units_per_day_def microseconds_per_unit_def
          timedelta_new_seconds)
  next
    case 3
    have "n * 86400000000 div 1000000 = n * 86400" by simp
    moreover have "n * 86400000000 mod 1000000 = 0" by simp
    ultimately show ?thesis using 3
      by (simp add: timedelta_kw_def units_per_day_def microseconds_per_unit_def
          timedelta_new_days)
  qed
qed

lemma total_of_units:
  assumes "p \<in> {''microseconds'', ''seconds'', ''days''}"
    and "timedelta_kw p n = Inr td"
  shows "valid_timedelta td \<and> total_microseconds td = n * microseconds_per_unit p"
proof -
  let ?m = "n * microseconds_per_unit p"
  have ov: "\<not> \<bar>n div units_per_day p\<bar> > 999999999"
    and td: "td = \<lparr>days = n div units_per_day p, seconds = ?m div 1000000 mod 86400,
                     microseconds = ?m mod 1000000\<rparr>"
    using assms(2) unfolding timedelta_kw_units[OF assms(1)] by (auto split: if_splits)
  have d: "n div units_per_day p = ?m div 1000000 div 86400"
    using assms(1)
    by (auto simp: units_per_day_def microseconds_per_unit_def div_86400000000)
  have v: "valid_timedelta td"
    using ov unfolding td valid_timedelta_def by simp
  have "total_microseconds td =
      (?m div 1000000 div 86400 * 86400 + ?m div 1000000 mod 86400) * 1000000
        + ?m mod 1000000"
    unfolding td total_microseconds_def d by simp
  also have "\<dots> = ?m div 1000000 * 1000000 + ?m mod 1000000"
    by (simp only: div_mult_mod_eq)
  also have "\<dots> = ?m" by (simp only: div_mult_mod_eq)
  finally show ?thesis using v by simp
qed

lemma timedelta_abs_valid:
  assumes "valid_timedelta v"
  shows "\<exists>w. timedelta_abs v = Inr w \<and> valid_timedelta w \<and> 0 \<le> days w
            \<and> total_microseconds w = \<bar>total_microseconds v\<bar>"
proof (cases "days v < 0")
  case False
  then have "0 \<le> total_microseconds v"
    using assms unfolding valid_timedelta_def total_microseconds_def by simp
  then show ?thesis using False assms by (simp add: timedelta_abs_def)
next
  case True
  define d s u where "d = days v" and "s = seconds v" and "u = microseconds v"
  define q1 r1 where "q1 = (- u) div 1000000" and "r1 = (- u) mod 1000000"
  define q2 r2 where "q2 = (- s + q1) div 86400" and "r2 = (- s + q1) mod 86400"
  have b: "d < 0" "- 999999999 \<le> d" "0 \<le> s" "s < 86400" "0 \<le> u" "u < 1000000"
    using assms True unfolding valid_timedelta_def d_def s_def u_def by simp_all
  have e1: "q1 * 1000000 + r1 = - u" unfolding q1_def r1_def by simp
  have r1: "0 \<le> r1" "r1 < 1000000" unfolding r1_def by simp_all
  have e2: "q2 * 86400 + r2 = - s + q1" unfolding q2_def r2_def by simp
  have r2: "0 \<le> r2" "r2 < 86400" unfolding r2_def by simp_all
  have q1: "- 1 \<le> q1" "q1 \<le> 0" using e1 r1 b by linarith+
  have q2: "- 1 \<le> q2" "q2 \<le> 0" using e2 r2 b q1 by linarith+
  define w where "w = \<lparr>days = - d + q2, seconds = r2, microseconds = r1\<rparr>"
  have ab: "timedelta_abs v = Inr w"
    using True b q2
    unfolding timedelta_abs_def timedelta_new_def Let_def w_def q2_def r2_def q1_def r1_def
      d_def s_def u_def
    by simp
  have vw: "valid_timedelta w" "0 \<le> days w"
    using b q2 r1 r2 unfolding valid_timedelta_def w_def by simp_all
  have tv: "total_microseconds v = (d * 86400 + s) * 1000000 + u"
    unfolding total_microseconds_def d_def s_def u_def by simp
  have tw: "total_microseconds w = ((- d + q2) * 86400 + r2) * 1000000 + r1"
    unfolding total_microseconds_def w_def by simp
  have "total_microseconds w = - total_microseconds v"
    unfolding tv tw using e1 e2 by algebra
  moreover have "(d * 86400 + s) * 1000000 + u = d * 86400000000 + s * 1000000 + u"
    by simp
  then have "total_microseconds v < 0" unfolding tv using b by linarith
  ultimately show ?thesis using ab vw by simp
qed

lemma encode_units_total:
  assumes "valid_timedelta w" and "p \<in> {''microseconds'', ''seconds'', ''days''}"
  shows "encode_units p w = Inr (total_microseconds w div microseconds_per_unit p)"
proof -
  define d s u where "d = days w" and "s = seconds w" and "u = microseconds w"
  have b: "0 \<le> s" "s < 86400" "0 \<le> u" "u < 1000000"
    using assms(1) unfolding valid_timedelta_def s_def u_def by simp_all
  have t: "total_microseconds w = (d * 86400 + s) * 1000000 + u"
    unfolding total_microseconds_def d_def s_def u_def by simp
  have sec: "total_microseconds w div 1000000 = d * 86400 + s"
    unfolding t using divmod_unique(1)[OF b(3) b(4)] by simp
  have "total_microseconds w = d * 86400000000 + (s * 1000000 + u)"
    unfolding t by simp
  moreover have "0 \<le> s * 1000000 + u" "s * 1000000 + u < 86400000000"
    using b by linarith+
  ultimately have dy: "total_microseconds w div 86400000000 = d"
    using divmod_unique(1)[of "s * 1000000 + u" 86400000000 d] by simp
  consider "p = ''microseconds''" | "p = ''seconds''" | "p = ''days''"
    using assms(2) by auto
  then show ?thesis
  proof cases
    case 1
    then show ?thesis
      unfolding encode_units_def microseconds_per_unit_def t d_def s_def u_def by simp
  next
    case 2
    then show ?thesis
      using sec unfolding encode_units_def microseconds_per_unit_def d_def s_def by simp
  next
    case 3
    then show ?thesis
      using dy unfolding encode_units_def microseconds_per_unit_def d_def by simp
  qed
qed

lemma normal_form:
  assumes "valid_timedelta v"
  shows "total_microseconds v div 86400000000 = days v"
    and "total_microseconds v div 1000000 = days v * 86400 + seconds v"
    and "total_microseconds v div 1000000 mod 86400 = seconds v"
    and "total_microseconds v mod 1000000 = microseconds v"
proof -
  define d s u where "d = days v" and "s = seconds v" and "u = microseconds v"
  have b: "0 \<le> s" "s < 86400" "0 \<le> u" "u < 1000000"
    using assms unfolding valid_timedelta_def s_def u_def by simp_all
  have t: "total_microseconds v = (d * 86400 + s) * 1000000 + u"
    unfolding total_microseconds_def d_def s_def u_def by simp
  show sec: "total_microseconds v div 1000000 = days v * 86400 + seconds v"
    unfolding t d_def[symmetric] s_def[symmetric]
    by (rule divmod_unique(1)[OF b(3) b(4)])
  show "total_microseconds v mod 1000000 = microseconds v"
    unfolding t u_def[symmetric] by (rule divmod_unique(2)[OF b(3) b(4)])
  show "total_microseconds v div 1000000 mod 86400 = seconds v"
    unfolding sec d_def[symmetric] s_def[symmetric]
    by (rule divmod_unique(2)[OF b(1) b(2)])
  have "total_microseconds v = d * 86400000000 + (s * 1000000 + u)"
    unfolding t by simp
  moreover have "0 \<le> s * 1000000 + u" "s * 1000000 + u < 86400000000"
    using b by linarith+
  ultimately show "total_microseconds v div 86400000000 = days v"
    using divmod_unique(1)[of "s * 1000000 + u" 86400000000 d] by (simp add: d_def)
qed

section \<open>Properties of the grammar\<close>

text \<open>
  The parser of the grammar section fails with \<open>ValueError\<close> only, and what it
  returns is a normalised, non-negative duration: the sign that the text may carry is
  dropped before the tokens are read.
\<close>

lemma digits_val_nonneg: "0 \<le> digits_val ds"
proof -
  have "0 \<le> a \<Longrightarrow> 0 \<le> foldl (\<lambda>a c. 10 * a + digit_val c) a ds" for a
    by (induction ds arbitrary: a) (simp_all add: digit_val_def)
  then show ?thesis unfolding digits_val_def by simp
qed

lemma read_amount_nonneg:
  assumes "read_amount cs = Some (num, k, r)"
  shows "0 \<le> num"
  using assms digits_val_nonneg
  by (auto simp: read_amount_def split: if_splits list.splits)

lemma unit_microseconds_pos:
  assumes "unit_microseconds u = Some m"
  shows "0 < m"
  using assms by (auto simp: unit_microseconds_def split: if_splits)

lemma parse_tokens_result:
  "(parse_tokens seen acc cs = Inl e \<longrightarrow> e = ValueError)
   \<and> (0 \<le> acc \<longrightarrow> parse_tokens seen acc cs = Inr t \<longrightarrow> 0 \<le> t)"
proof (induction seen acc cs rule: parse_tokens.induct)
  case (1 seen acc cs)
  define rest where "rest = dropWhile is_space cs"
  have eq: "parse_tokens seen acc cs =
     (case rest of
        [] \<Rightarrow> if seen = [] then Inl ValueError else Inr acc
      | c # r \<Rightarrow>
          (case read_amount (c # r) of
             None \<Rightarrow> Inl ValueError
           | Some (num, k, r1) \<Rightarrow>
               (let u = takeWhile is_letter r1
                in case unit_microseconds u of
                     None \<Rightarrow> Inl ValueError
                   | Some m \<Rightarrow>
                       if u \<in> set seen then Inl ValueError
                       else parse_tokens (u # seen) (acc + num * m div 10 ^ k)
                              (dropWhile is_letter r1))))"
    unfolding rest_def by (rule parse_tokens.simps)
  show ?case
  proof (cases rest)
    case Nil
    then show ?thesis unfolding eq by simp
  next
    case (Cons c r)
    show ?thesis
    proof (cases "read_amount (c # r)")
      case None
      then show ?thesis unfolding eq using Cons by simp
    next
      case (Some x)
      obtain num k r1 where x: "x = (num, k, r1)" by (cases x) auto
      define u where "u = takeWhile is_letter r1"
      show ?thesis
      proof (cases "unit_microseconds u")
        case None
        then show ?thesis unfolding eq using Cons Some x u_def by (simp add: Let_def)
      next
        case m: (Some m)
        show ?thesis
        proof (cases "u \<in> set seen")
          case True
          then show ?thesis unfolding eq using Cons Some x u_def m by (simp add: Let_def)
        next
          case False
          have step: "parse_tokens seen acc cs =
              parse_tokens (u # seen) (acc + num * m div 10 ^ k) (dropWhile is_letter r1)"
            unfolding eq using Cons Some x u_def m False by (simp add: Let_def)
          have ih: "(parse_tokens (u # seen) (acc + num * m div 10 ^ k) (dropWhile is_letter r1)
                = Inl e \<longrightarrow> e = ValueError)
              \<and> (0 \<le> acc + num * m div 10 ^ k \<longrightarrow>
                 parse_tokens (u # seen) (acc + num * m div 10 ^ k) (dropWhile is_letter r1)
                   = Inr t \<longrightarrow> 0 \<le> t)"
            by (rule "1.IH"[OF Cons[unfolded rest_def] Some x[symmetric] refl u_def m False])
          have "0 \<le> num" using read_amount_nonneg Some x by blast
          moreover have "0 < m" using unit_microseconds_pos m by blast
          ultimately have "0 \<le> num * m div 10 ^ k"
            by (simp add: pos_imp_zdiv_nonneg_iff)
          then show ?thesis using ih unfolding step by simp
        qed
      qed
    qed
  qed
qed

lemma str_to_timedelta_error:
  assumes "str_to_timedelta s p = Inl e"
  shows "e = ValueError"
  using assms parse_tokens_result
  unfolding str_to_timedelta_def Let_def
  by (auto split: sum.splits)

lemma str_to_timedelta_nonneg:
  assumes "str_to_timedelta s p = Inr td"
  shows "0 \<le> days td \<and> 0 \<le> seconds td \<and> seconds td < 86400
       \<and> 0 \<le> microseconds td \<and> microseconds td < 1000000"
proof -
  obtain us where us: "0 \<le> us"
      and td: "td = \<lparr>days = us div 86400000000, seconds = us div 1000000 mod 86400,
                    microseconds = us mod 1000000\<rparr>"
    using assms parse_tokens_result[of "[]" 0]
    unfolding str_to_timedelta_def Let_def
    by (fastforce split: sum.splits)
  have "0 \<le> us div 86400000000" using us by (simp add: pos_imp_zdiv_nonneg_iff)
  then show ?thesis unfolding td by simp
qed

lemma rejected_empty: "str_to_timedelta [] ''seconds'' = Inl ValueError"
  by code_simp

lemma rejected_unknown_unit: "str_to_timedelta ''5 xyz'' ''seconds'' = Inl ValueError"
  by code_simp

lemma rejected_duplicate_unit: "str_to_timedelta ''1d1d'' ''seconds'' = Inl ValueError"
  by code_simp

section \<open>The claims\<close>

subsection \<open>Encoding\<close>

text \<open>
  C1. For a duration with non-negative days, \<open>get_db_prep_value\<close> returns
  \<open>days * 86400000000 + seconds * 1000000 + microseconds\<close> under the precision
  \<open>microseconds\<close>, \<open>days * 86400 + seconds\<close> under \<open>seconds\<close> (the microseconds
  are dropped, not rounded) and \<open>days\<close> under \<open>days\<close> (the part below a day is
  dropped). The formulas need no more of the duration than that its days are not
  negative, so they hold for every normalised non-negative one.
\<close>

theorem encode_formulas:
  assumes "0 \<le> days v"
  shows "get_db_prep_value \<lparr>precision = ''microseconds''\<rparr> (PyTimedelta v) =
           Inr (Some (days v * 86400000000 + seconds v * 1000000 + microseconds v))
       \<and> get_db_prep_value \<lparr>precision = ''seconds''\<rparr> (PyTimedelta v) =
           Inr (Some (days v * 86400 + seconds v))
       \<and> get_db_prep_value \<lparr>precision = ''days''\<rparr> (PyTimedelta v) =
           Inr (Some (days v))"
  using assms by (simp add: timedelta_abs_def encode_units_def)

text \<open>
  An instance: two days and 1.9 seconds encode to 172801900000 microseconds, to 172801
  seconds (not 172802) and to 2 days.
\<close>

theorem encode_formulas_witness:
  "get_db_prep_value \<lparr>precision = ''microseconds''\<rparr>
       (PyTimedelta \<lparr>days = 2, seconds = 1, microseconds = 900000\<rparr>) = Inr (Some 172801900000)
   \<and> get_db_prep_value \<lparr>precision = ''seconds''\<rparr>
       (PyTimedelta \<lparr>days = 2, seconds = 1, microseconds = 900000\<rparr>) = Inr (Some 172801)
   \<and> get_db_prep_value \<lparr>precision = ''days''\<rparr>
       (PyTimedelta \<lparr>days = 2, seconds = 1, microseconds = 900000\<rparr>) = Inr (Some 2)"
  using encode_formulas [of "\<lparr>days = 2, seconds = 1, microseconds = 900000\<rparr>"] by simp

text \<open>
  C8. For every duration \<open>v\<close>, negative ones included, and each of the three
  precisions, \<open>get_db_prep_value\<close> returns an integer that is not negative: the
  absolute value of \<open>v\<close> is taken first and the formula of the precision is applied
  to it, so the result is the magnitude of \<open>v\<close> in microseconds, divided by the
  microseconds of one unit and rounded down.
\<close>

theorem encode_nonneg:
  assumes "valid_timedelta v"
    and "precision f \<in> {''microseconds'', ''seconds'', ''days''}"
  shows "get_db_prep_value f (PyTimedelta v) =
           Inr (Some (\<bar>total_microseconds v\<bar> div microseconds_per_unit (precision f)))
       \<and> 0 \<le> \<bar>total_microseconds v\<bar> div microseconds_per_unit (precision f)"
proof -
  obtain w where w: "timedelta_abs v = Inr w" "valid_timedelta w"
      "total_microseconds w = \<bar>total_microseconds v\<bar>"
    using timedelta_abs_valid[OF assms(1)] by blast
  have "0 < microseconds_per_unit (precision f)"
    unfolding microseconds_per_unit_def by simp
  then have "0 \<le> \<bar>total_microseconds v\<bar> div microseconds_per_unit (precision f)"
    by (simp add: pos_imp_zdiv_nonneg_iff)
  then show ?thesis
    using w(1) w(3) encode_units_total[OF w(2) assms(2)] by simp
qed

text \<open>
  An instance: the duration of minus one and a half seconds (days \<open>-1\<close>, seconds
  86398, microseconds 500000) under the precision \<open>seconds\<close> encodes to 1, the whole
  seconds of one and a half seconds; the formula applied to the negative duration
  itself would give \<open>-2\<close>.
\<close>

theorem encode_nonneg_witness:
  "valid_timedelta \<lparr>days = - 1, seconds = 86398, microseconds = 500000\<rparr>
   \<and> get_db_prep_value \<lparr>precision = ''seconds''\<rparr>
        (PyTimedelta \<lparr>days = - 1, seconds = 86398, microseconds = 500000\<rparr>) = Inr (Some 1)"
proof -
  have v: "valid_timedelta \<lparr>days = - 1, seconds = 86398, microseconds = 500000\<rparr>"
    by (simp add: valid_timedelta_def)
  have p: "precision \<lparr>precision = ''seconds''\<rparr> \<in> {''microseconds'', ''seconds'', ''days''}"
    by simp
  show ?thesis
    using v encode_nonneg [OF v p]
    by (simp add: total_microseconds_def microseconds_per_unit_def)
qed

text \<open>
  C5. Under every precision \<open>to_python\<close> returns \<open>None\<close> for \<open>None\<close> and raises
  nothing, and so does \<open>get_db_prep_value\<close>.
\<close>

theorem none_propagates:
  "to_python str_to_td f PyNone = Inr None \<and> get_db_prep_value f PyNone = Inr None"
  by simp

subsection \<open>Construction\<close>

text \<open>
  C9. \<open>__init__\<close> succeeds for the three precisions \<open>microseconds\<close>,
  \<open>seconds\<close> and \<open>days\<close>, and the field then holds the precision it was given;
  for every other precision it fails with an error and builds no field.
\<close>

theorem init_precisions:
  "(p \<in> {''microseconds'', ''seconds'', ''days''} \<longrightarrow> init p = Inr \<lparr>precision = p\<rparr>)
   \<and> (p \<notin> {''microseconds'', ''seconds'', ''days''} \<longrightarrow> init p = Inl AttributeError)"
  by (simp add: init_def)

text \<open>
  The three precisions, and \<open>hours\<close> as a precision that is refused.
\<close>

theorem init_precisions_witness:
  "init ''microseconds'' = Inr \<lparr>precision = ''microseconds''\<rparr>
   \<and> init ''seconds'' = Inr \<lparr>precision = ''seconds''\<rparr>
   \<and> init ''days'' = Inr \<lparr>precision = ''days''\<rparr>
   \<and> init ''hours'' = Inl AttributeError"
  using init_precisions [of "''microseconds''"] init_precisions [of "''seconds''"]
    init_precisions [of "''days''"] init_precisions [of "''hours''"]
  by simp

subsection \<open>Decoding\<close>

text \<open>
  C7. Whenever the string parser fails on a string, that is raises \<open>ValueError\<close>,
  \<open>to_python\<close> fails with the \<open>invalid\<close> validation error, and with no other
  error.
\<close>

theorem parser_failure_is_invalid:
  assumes "str_to_td s (precision f) = Inl ValueError"
  shows "to_python str_to_td f (PyStr s) = Inl InvalidFormat"
  using assms by (simp add: parse_text_def)

text \<open>
  With the parser of the grammar: the empty string, an unknown unit and a unit given
  twice.
\<close>

theorem parser_failure_is_invalid_witness:
  "str_to_timedelta [] ''seconds'' = Inl ValueError
   \<and> to_python str_to_timedelta \<lparr>precision = ''seconds''\<rparr> (PyStr []) = Inl InvalidFormat
   \<and> to_python str_to_timedelta \<lparr>precision = ''seconds''\<rparr> (PyStr ''5 xyz'') = Inl InvalidFormat
   \<and> to_python str_to_timedelta \<lparr>precision = ''seconds''\<rparr> (PyStr ''1d1d'') = Inl InvalidFormat"
  using rejected_empty
    parser_failure_is_invalid [of str_to_timedelta "[]" "\<lparr>precision = ''seconds''\<rparr>"]
    parser_failure_is_invalid [of str_to_timedelta "''5 xyz''" "\<lparr>precision = ''seconds''\<rparr>"]
    parser_failure_is_invalid [of str_to_timedelta "''1d1d''" "\<lparr>precision = ''seconds''\<rparr>"]
    rejected_unknown_unit rejected_duplicate_unit
  by simp

text \<open>
  Against C2 as stated: the float \<open>3.14\<close> under the precision \<open>seconds\<close>.
  \<open>smart_text\<close> turns it into the string \<open>3.14\<close>, which is parsed; the grammar
  rejects it, and the error is the \<open>invalid\<close> one, not the \<open>unknown_type\<close> one.
\<close>

theorem float_is_not_unsupported:
  "to_python str_to_timedelta \<lparr>precision = ''seconds''\<rparr> (PyFloat ''3.14'') = Inl InvalidFormat
   \<and> to_python str_to_timedelta \<lparr>precision = ''seconds''\<rparr> (PyFloat ''3.14'')
       \<noteq> Inl UnsupportedType"
  by code_simp

text \<open>
  C2, amended. An input that is neither \<open>None\<close>, an integer nor a timedelta is first
  converted to text, outside the handling of the parser's errors. When the conversion
  raises (bytes that are not UTF-8, an object whose \<open>str\<close> raises), that exception
  propagates. When it gives a string (a float, decodable bytes, another object),
  \<open>to_python\<close> does exactly what it does on that string: the \<open>invalid\<close> error when
  the parser rejects it, and the \<open>unknown_type\<close> error only if the parser itself
  raised that. When it gives no string (the lazy translation proxy), \<open>to_python\<close>
  fails with the \<open>unknown_type\<close> error. This holds under every precision.
\<close>

theorem other_kinds_are_parsed:
  "to_python str_to_td f (PyFloat s) = to_python str_to_td f (PyStr s)
   \<and> to_python str_to_td f (PyBytes (Some s)) = to_python str_to_td f (PyStr s)
   \<and> to_python str_to_td f (PyBytes None) = Inl DjangoUnicodeDecodeError
   \<and> to_python str_to_td f (PyObject (Inr s)) = to_python str_to_td f (PyStr s)
   \<and> to_python str_to_td f (PyObject (Inl e)) = Inl e
   \<and> to_python str_to_td f PyLazy = Inl UnsupportedType
   \<and> (to_python str_to_td f (PyStr s) = Inl UnsupportedType
        \<longleftrightarrow> str_to_td s (precision f) = Inl UnsupportedType)
   \<and> (to_python str_to_td f (PyStr s) = Inl InvalidFormat
        \<longleftrightarrow> (\<exists>e. str_to_td s (precision f) = Inl e \<and> (is_ValueError e \<or> e = InvalidFormat)))"
proof -
  have u: "to_python str_to_td f (PyStr s) = Inl UnsupportedType
        \<longleftrightarrow> str_to_td s (precision f) = Inl UnsupportedType"
    by (cases "str_to_td s (precision f)") (auto simp: parse_text_def)
  have i: "to_python str_to_td f (PyStr s) = Inl InvalidFormat
        \<longleftrightarrow> (\<exists>e. str_to_td s (precision f) = Inl e \<and> (is_ValueError e \<or> e = InvalidFormat))"
    by (cases "str_to_td s (precision f)") (auto simp: parse_text_def)
  show ?thesis using u i by simp
qed

text \<open>
  With the parser of the grammar under the precision \<open>seconds\<close>: the float \<open>3.14\<close>
  and the bytes of \<open>3.14\<close> fail as the string \<open>3.14\<close> does, with the \<open>invalid\<close>
  error; the bytes of \<open>90s\<close> decode to ninety seconds; bytes that are not UTF-8 and
  an object whose \<open>str\<close> raises \<open>TypeError\<close> fail with that exception; the proxy
  fails with the \<open>unknown_type\<close> error.
\<close>

theorem other_kinds_are_parsed_witness:
  "to_python str_to_timedelta \<lparr>precision = ''seconds''\<rparr> (PyStr ''3.14'') = Inl InvalidFormat
   \<and> to_python str_to_timedelta \<lparr>precision = ''seconds''\<rparr> (PyFloat ''3.14'')
       = Inl InvalidFormat
   \<and> to_python str_to_timedelta \<lparr>precision = ''seconds''\<rparr> (PyBytes (Some ''3.14''))
       = Inl InvalidFormat
   \<and> to_python str_to_timedelta \<lparr>precision = ''seconds''\<rparr> (PyBytes (Some ''90s''))
       = Inr (Some \<lparr>days = 0, seconds = 90, microseconds = 0\<rparr>)
   \<and> to_python str_to_timedelta \<lparr>precision = ''seconds''\<rparr> (PyBytes None)
       = Inl DjangoUnicodeDecodeError
   \<and> to_python str_to_timedelta \<lparr>precision = ''seconds''\<rparr> (PyObject (Inl TypeError))
       = Inl TypeError
   \<and> to_python str_to_timedelta \<lparr>precision = ''seconds''\<rparr> PyLazy = Inl UnsupportedType"
proof -
  have a: "to_python str_to_timedelta \<lparr>precision = ''seconds''\<rparr> (PyStr ''3.14'')
      = Inl InvalidFormat"
    by code_simp
  have b: "to_python str_to_timedelta \<lparr>precision = ''seconds''\<rparr> (PyStr ''90s'')
      = Inr (Some \<lparr>days = 0, seconds = 90, microseconds = 0\<rparr>)"
    by code_simp
  show ?thesis
    using a b
      other_kinds_are_parsed [of str_to_timedelta "\<lparr>precision = ''seconds''\<rparr>" "''3.14''"
        TypeError]
      other_kinds_are_parsed [of str_to_timedelta "\<lparr>precision = ''seconds''\<rparr>" "''90s''"]
    by simp
qed

text \<open>
  Against C3 as stated: the integer \<open>-5\<close> under the precision \<open>seconds\<close> decodes
  to the duration of minus five seconds, whose total is negative, and that negative
  duration given to \<open>to_python\<close> comes back as it is.
\<close>

theorem negative_integer_decodes_negative:
  "to_python str_to_timedelta \<lparr>precision = ''seconds''\<rparr> (PyInt (- 5)) =
     Inr (Some \<lparr>days = - 1, seconds = 86395, microseconds = 0\<rparr>)
   \<and> total_microseconds \<lparr>days = - 1, seconds = 86395, microseconds = 0\<rparr> < 0
   \<and> to_python str_to_timedelta \<lparr>precision = ''seconds''\<rparr>
         (PyTimedelta \<lparr>days = - 1, seconds = 86395, microseconds = 0\<rparr>) =
     Inr (Some \<lparr>days = - 1, seconds = 86395, microseconds = 0\<rparr>)"
  by (simp add: timedelta_kw_def timedelta_new_def total_microseconds_def)

text \<open>
  C3, amended. \<open>to_python\<close> takes no absolute value. For an integer \<open>n\<close> whose whole
  days under the precision (rounded down) are at most 999999999 in magnitude, it
  returns the normalised duration whose total is exactly \<open>n\<close> units of the precision,
  which is non-negative exactly when \<open>n\<close> is. A timedelta is returned as it is. A
  string decodes to a duration exactly when the parser returns that duration for it.
\<close>

theorem to_python_keeps_sign:
  "(precision f \<in> {''microseconds'', ''seconds'', ''days''}
      \<and> \<bar>n div units_per_day (precision f)\<bar> \<le> 999999999 \<longrightarrow>
      (\<exists>td. to_python str_to_td f (PyInt n) = Inr (Some td)
            \<and> valid_timedelta td
            \<and> total_microseconds td = n * microseconds_per_unit (precision f)
            \<and> (0 \<le> total_microseconds td \<longleftrightarrow> 0 \<le> n)))
   \<and> to_python str_to_td f (PyTimedelta t) = Inr (Some t)
   \<and> (to_python str_to_td f (PyStr s) = Inr (Some r) \<longleftrightarrow> str_to_td s (precision f) = Inr r)"
proof -
  have "\<exists>td. to_python str_to_td f (PyInt n) = Inr (Some td)
            \<and> valid_timedelta td
            \<and> total_microseconds td = n * microseconds_per_unit (precision f)
            \<and> (0 \<le> total_microseconds td \<longleftrightarrow> 0 \<le> n)"
    if p: "precision f \<in> {''microseconds'', ''seconds'', ''days''}"
      and r: "\<bar>n div units_per_day (precision f)\<bar> \<le> 999999999"
  proof -
    obtain td where td: "timedelta_kw (precision f) n = Inr td"
      using r unfolding timedelta_kw_units[OF p] by simp
    have v: "valid_timedelta td"
      and t: "total_microseconds td = n * microseconds_per_unit (precision f)"
      using total_of_units[OF p td] by simp_all
    have "0 < microseconds_per_unit (precision f)"
      unfolding microseconds_per_unit_def by simp
    then have "0 \<le> total_microseconds td \<longleftrightarrow> 0 \<le> n"
      unfolding t by (simp add: zero_le_mult_iff)
    then show ?thesis using td v t by simp
  qed
  moreover have "to_python str_to_td f (PyStr s) = Inr (Some r)
      \<longleftrightarrow> str_to_td s (precision f) = Inr r"
    by (cases "str_to_td s (precision f)") (auto simp: parse_text_def)
  ultimately show ?thesis by simp
qed

text \<open>
  The integers 90 and \<open>-90\<close> under the precision \<open>seconds\<close>, and a string with
  a leading sign, for which the parser of the grammar returns ninety seconds.
\<close>

theorem to_python_keeps_sign_witness:
  "(\<exists>td. to_python str_to_timedelta \<lparr>precision = ''seconds''\<rparr> (PyInt 90) = Inr (Some td)
         \<and> valid_timedelta td \<and> total_microseconds td = 90000000)
   \<and> (\<exists>td. to_python str_to_timedelta \<lparr>precision = ''seconds''\<rparr> (PyInt (- 90)) = Inr (Some td)
         \<and> valid_timedelta td \<and> total_microseconds td = - 90000000)
   \<and> str_to_timedelta ''-1min30s'' ''seconds''
        = Inr \<lparr>days = 0, seconds = 90, microseconds = 0\<rparr>
   \<and> to_python str_to_timedelta \<lparr>precision = ''seconds''\<rparr> (PyStr ''-1min30s'')
        = Inr (Some \<lparr>days = 0, seconds = 90, microseconds = 0\<rparr>)"
proof -
  have s: "str_to_timedelta ''-1min30s'' ''seconds''
        = Inr \<lparr>days = 0, seconds = 90, microseconds = 0\<rparr>"
    by code_simp
  have a: "\<exists>td. to_python str_to_timedelta \<lparr>precision = ''seconds''\<rparr> (PyInt 90) = Inr (Some td)
         \<and> valid_timedelta td \<and> total_microseconds td = 90000000"
    using to_python_keeps_sign [of "\<lparr>precision = ''seconds''\<rparr>" 90 str_to_timedelta
        "\<lparr>days = 0, seconds = 0, microseconds = 0\<rparr>" "''-1min30s''"
        "\<lparr>days = 0, seconds = 90, microseconds = 0\<rparr>"]
    by (auto simp: units_per_day_def microseconds_per_unit_def)
  have b: "\<exists>td. to_python str_to_timedelta \<lparr>precision = ''seconds''\<rparr> (PyInt (- 90)) = Inr (Some td)
         \<and> valid_timedelta td \<and> total_microseconds td = - 90000000"
    using to_python_keeps_sign [of "\<lparr>precision = ''seconds''\<rparr>" "- 90" str_to_timedelta
        "\<lparr>days = 0, seconds = 0, microseconds = 0\<rparr>" "''-1min30s''"
        "\<lparr>days = 0, seconds = 90, microseconds = 0\<rparr>"]
    by (auto simp: units_per_day_def microseconds_per_unit_def)
  have c: "to_python str_to_timedelta \<lparr>precision = ''seconds''\<rparr> (PyStr ''-1min30s'')
        = Inr (Some \<lparr>days = 0, seconds = 90, microseconds = 0\<rparr>)"
    using s to_python_keeps_sign [of "\<lparr>precision = ''seconds''\<rparr>" 90 str_to_timedelta
        "\<lparr>days = 0, seconds = 0, microseconds = 0\<rparr>" "''-1min30s''"
        "\<lparr>days = 0, seconds = 90, microseconds = 0\<rparr>"]
    by simp
  show ?thesis using a b c s by blast
qed

text \<open>
  Against C6 as stated: the non-negative integer 1000000000 under the precision
  \<open>days\<close> is beyond the range of a timedelta, and \<open>to_python\<close> raises
  \<open>OverflowError\<close>.
\<close>

theorem decode_overflow:
  "to_python str_to_timedelta \<lparr>precision = ''days''\<rparr> (PyInt 1000000000) = Inl OverflowError"
  by (simp add: timedelta_kw_def timedelta_new_def)

text \<open>
  C6, amended. For every non-negative integer \<open>n\<close> that amounts to at most
  999999999 whole days under the precision, \<open>to_python\<close> returns the normalised
  non-negative duration of exactly \<open>n\<close> units; and 90000000 under the precision
  \<open>microseconds\<close> decodes to exactly ninety seconds.
\<close>

theorem decode_units:
  "(precision f \<in> {''microseconds'', ''seconds'', ''days''} \<and> 0 \<le> n
      \<and> n div units_per_day (precision f) \<le> 999999999 \<longrightarrow>
      (\<exists>td. to_python str_to_td f (PyInt n) = Inr (Some td)
            \<and> valid_timedelta td \<and> 0 \<le> days td
            \<and> total_microseconds td = n * microseconds_per_unit (precision f)))
   \<and> to_python str_to_td \<lparr>precision = ''microseconds''\<rparr> (PyInt 90000000) =
       Inr (Some \<lparr>days = 0, seconds = 90, microseconds = 0\<rparr>)"
proof -
  have "\<exists>td. to_python str_to_td f (PyInt n) = Inr (Some td)
            \<and> valid_timedelta td \<and> 0 \<le> days td
            \<and> total_microseconds td = n * microseconds_per_unit (precision f)"
    if p: "precision f \<in> {''microseconds'', ''seconds'', ''days''}"
      and n: "0 \<le> n" and r: "n div units_per_day (precision f) \<le> 999999999"
  proof -
    have u: "0 < units_per_day (precision f)" unfolding units_per_day_def by simp
    have q: "0 \<le> n div units_per_day (precision f)"
      using n u by (simp add: pos_imp_zdiv_nonneg_iff)
    define td where "td = \<lparr>days = n div units_per_day (precision f),
        seconds = n * microseconds_per_unit (precision f) div 1000000 mod 86400,
        microseconds = n * microseconds_per_unit (precision f) mod 1000000\<rparr>"
    have td: "timedelta_kw (precision f) n = Inr td"
      using r q unfolding timedelta_kw_units[OF p] td_def by simp
    have "0 \<le> days td" using q unfolding td_def by simp
    then show ?thesis using td total_of_units[OF p td] by simp
  qed
  moreover have "to_python str_to_td \<lparr>precision = ''microseconds''\<rparr> (PyInt 90000000) =
       Inr (Some \<lparr>days = 0, seconds = 90, microseconds = 0\<rparr>)"
    by (simp add: timedelta_kw_def timedelta_new_def)
  ultimately show ?thesis by blast
qed

text \<open>
  The largest number of days that a timedelta holds.
\<close>

theorem decode_units_witness:
  "\<exists>td. to_python str_to_timedelta \<lparr>precision = ''days''\<rparr> (PyInt 999999999) = Inr (Some td)
        \<and> valid_timedelta td \<and> 0 \<le> days td
        \<and> total_microseconds td = 999999999 * 86400000000"
  using decode_units [of "\<lparr>precision = ''days''\<rparr>" 999999999 str_to_timedelta]
  by (simp add: units_per_day_def microseconds_per_unit_def)

subsection \<open>Round trips\<close>

text \<open>
  C4. For every normalised non-negative duration \<open>v\<close> and each of the three
  precisions, when \<open>v\<close> has no component finer than the precision (no microseconds
  under \<open>seconds\<close>; no seconds and no microseconds under \<open>days\<close>), encoding
  \<open>v\<close> and decoding the integer gives \<open>v\<close> back.
\<close>

theorem decode_encode_roundtrip:
  assumes "precision f \<in> {''microseconds'', ''seconds'', ''days''}"
    and "valid_timedelta v" and "0 \<le> days v"
    and "precision f = ''seconds'' \<longrightarrow> microseconds v = 0"
    and "precision f = ''days'' \<longrightarrow> seconds v = 0 \<and> microseconds v = 0"
  shows "\<exists>n. get_db_prep_value f (PyTimedelta v) = Inr (Some n)
            \<and> to_python str_to_td f (PyInt n) = Inr (Some v)"
proof -
  let ?p = "precision f"
  let ?n = "total_microseconds v div microseconds_per_unit ?p"
  have enc: "get_db_prep_value f (PyTimedelta v) = Inr (Some ?n)"
    using assms(3) encode_units_total[OF assms(2) assms(1)]
    by (simp add: timedelta_abs_def)
  have nm: "?n * microseconds_per_unit ?p = total_microseconds v"
    and nd: "?n div units_per_day ?p = days v"
  proof -
    consider "?p = ''microseconds''" | "?p = ''seconds''" | "?p = ''days''"
      using assms(1) by auto
    then have "?n * microseconds_per_unit ?p = total_microseconds v
        \<and> ?n div units_per_day ?p = days v"
    proof cases
      case 1
      then show ?thesis
        using normal_form(1)[OF assms(2)]
        by (simp add: microseconds_per_unit_def units_per_day_def)
    next
      case 2
      then have u: "microseconds v = 0" using assms(4) by simp
      have "0 \<le> seconds v" "seconds v < 86400"
        using assms(2) unfolding valid_timedelta_def by simp_all
      then have "(days v * 86400 + seconds v) div 86400 = days v"
        by (rule divmod_unique(1))
      then show ?thesis
        using 2 u normal_form(2)[OF assms(2)]
        by (simp add: microseconds_per_unit_def units_per_day_def total_microseconds_def)
    next
      case 3
      then have u: "seconds v = 0" "microseconds v = 0" using assms(5) by simp_all
      show ?thesis
        using 3 u normal_form(1)[OF assms(2)]
        by (simp add: microseconds_per_unit_def units_per_day_def total_microseconds_def)
    qed
    then show "?n * microseconds_per_unit ?p = total_microseconds v"
      and "?n div units_per_day ?p = days v" by simp_all
  qed
  have "\<bar>days v\<bar> \<le> 999999999" using assms(2) unfolding valid_timedelta_def by simp
  then have "timedelta_kw ?p ?n =
      Inr \<lparr>days = days v, seconds = total_microseconds v div 1000000 mod 86400,
           microseconds = total_microseconds v mod 1000000\<rparr>"
    unfolding timedelta_kw_units[OF assms(1)] nm nd by simp
  then have "timedelta_kw ?p ?n = Inr v"
    using normal_form(3,4)[OF assms(2)] by simp
  then show ?thesis using enc by simp
qed

text \<open>
  One day and five seconds under the precision \<open>seconds\<close>.
\<close>

theorem decode_encode_roundtrip_witness:
  "\<exists>n. get_db_prep_value \<lparr>precision = ''seconds''\<rparr>
           (PyTimedelta \<lparr>days = 1, seconds = 5, microseconds = 0\<rparr>) = Inr (Some n)
       \<and> to_python str_to_timedelta \<lparr>precision = ''seconds''\<rparr> (PyInt n)
           = Inr (Some \<lparr>days = 1, seconds = 5, microseconds = 0\<rparr>)"
  using decode_encode_roundtrip [of "\<lparr>precision = ''seconds''\<rparr>"
      "\<lparr>days = 1, seconds = 5, microseconds = 0\<rparr>" str_to_timedelta]
  by (simp add: valid_timedelta_def)

text \<open>
  Against C10 as stated: the integer \<open>-86400000000000\<close> under the precision
  \<open>seconds\<close> amounts to minus 1000000000 days; \<open>to_python\<close> raises
  \<open>OverflowError\<close>, and there is nothing to encode.
\<close>

theorem roundtrip_overflow:
  "to_python str_to_timedelta \<lparr>precision = ''seconds''\<rparr> (PyInt (- 86400000000000))
     = Inl OverflowError"
  by (simp add: timedelta_kw_def timedelta_new_def)

text \<open>
  C10, amended. For every integer \<open>n\<close> whose whole days under the precision
  (rounded down) are at most 999999999 in magnitude, decoding \<open>n\<close> and encoding
  the duration gives the absolute value of \<open>n\<close>; for a non-negative such \<open>n\<close>
  that is \<open>n\<close> itself.
\<close>

theorem encode_decode_abs:
  assumes "precision f \<in> {''microseconds'', ''seconds'', ''days''}"
    and "\<bar>n div units_per_day (precision f)\<bar> \<le> 999999999"
  shows "\<exists>v. to_python str_to_td f (PyInt n) = Inr (Some v)
            \<and> get_db_prep_value f (PyTimedelta v) = Inr (Some \<bar>n\<bar>)"
proof -
  let ?m = "microseconds_per_unit (precision f)"
  obtain td where td: "timedelta_kw (precision f) n = Inr td"
    using assms(2) unfolding timedelta_kw_units[OF assms(1)] by simp
  have v: "valid_timedelta td" and t: "total_microseconds td = n * ?m"
    using total_of_units[OF assms(1) td] by simp_all
  obtain w where w: "timedelta_abs td = Inr w" "valid_timedelta w"
      "total_microseconds w = \<bar>total_microseconds td\<bar>"
    using timedelta_abs_valid[OF v] by blast
  have m: "0 < ?m" unfolding microseconds_per_unit_def by simp
  have "total_microseconds w = \<bar>n\<bar> * ?m"
    using w(3) m unfolding t by (simp add: abs_mult)
  then have "total_microseconds w div ?m = \<bar>n\<bar>" using m by simp
  then have "encode_units (precision f) w = Inr \<bar>n\<bar>"
    using encode_units_total[OF w(2) assms(1)] by simp
  then show ?thesis using td w(1) by simp
qed

text \<open>
  The integer \<open>-5\<close> under the precision \<open>seconds\<close> comes back as 5.
\<close>

theorem encode_decode_abs_witness:
  "\<exists>v. to_python str_to_timedelta \<lparr>precision = ''seconds''\<rparr> (PyInt (- 5)) = Inr (Some v)
       \<and> get_db_prep_value \<lparr>precision = ''seconds''\<rparr> (PyTimedelta v) = Inr (Some 5)"
  using encode_decode_abs [of "\<lparr>precision = ''seconds''\<rparr>" "- 5" str_to_timedelta]
  by (simp add: units_per_day_def)

end
